theory Spec2Isabelle
  imports Main
begin

section \<open>Data model of the cause sleuth\<close>

text \<open>
  The sign of a hint discriminates its shape. The sleuth for metahints only ever compares
  the sign of its hint with \<open>HINT_PEP593_SIGN_ANNOTATED\<close>.
\<close>

datatype hint_sign =
    HINT_SIGN_CLASS
  | HINT_SIGN_UNION
  | HINT_PEP593_SIGN_ANNOTATED
  | HINT_SIGN_FORWARDREF
  | HINT_SIGN_CONTAINER_OF
  | HINT_SIGN_TUPLE_FIXED

text \<open>
  An object annotating the class of a metahint. It is either a \<open>SubscriptedIs\<close>
  validator, wrapping a predicate over piths (a total function from piths to truth
  values) and the representation \<open>repr()\<close> renders for it, or any other object, of
  which only the representation is ever read.
  The discriminator \<open>is_SubscriptedIs\<close> is the test
  \<^verbatim>\<open>isinstance(hint_metadatum, SubscriptedIs)\<close>.
\<close>

datatype 'p metadatum =
    is_SubscriptedIs: SubscriptedIs (is_valid: "'p \<Rightarrow> bool") (representation: string)
  | NotSubscriptedIs (object_repr: string)

fun repr_metadatum :: "'p metadatum \<Rightarrow> string" where
  "repr_metadatum (SubscriptedIs p r) = r"
| "repr_metadatum (NotSubscriptedIs r) = r"

text \<open>
  A hint node: its sign, the class it is built on and its ordered metadata. The children
  of a hint are not read by the code verified here and are left out.
\<close>

record ('p, 'c) hint =
  sign :: hint_sign
  origin :: 'c
  metadata :: "'p metadatum list"

text \<open>The traversal context handed to every cause getter.\<close>

record ('p, 'c) CauseSleuth =
  pith :: 'p
  hint :: "('p, 'c) hint"
  exception_label :: string

text \<open>
  The collaborators of the sleuth that live outside the verified module: the host's
  instance-of test, the rendering of a pith for a cause
  (\<open>get_cause_object_representation\<close>), the rendering of a hint (\<open>repr\<close>), and the
  wording of the one-line cause a class mismatch is reported with, which cites the pith
  and the hint the pith was checked against.
\<close>

record ('p, 'c) collaborators =
  isinstance :: "'p \<Rightarrow> 'c \<Rightarrow> bool"
  get_cause_object_representation :: "'p \<Rightarrow> string"
  repr_hint :: "('p, 'c) hint \<Rightarrow> string"
  cause_not_instance :: "'p \<Rightarrow> ('p, 'c) hint \<Rightarrow> string"

datatype error =
    AssertionError
  | BeartypeCallHintPepRaiseException string

text \<open>
  Modelled from the spec: \<open>hint_sign\<close> of a context is cached from its hint, so it is
  the sign of the current hint.
\<close>

definition hint_sign :: "('p, 'c) CauseSleuth \<Rightarrow> hint_sign" where
  "hint_sign sleuth = sign (hint sleuth)"

text \<open>
  Modelled from the spec: \<open>get_hint_pep593_type\<close> is the class an ANNOTATED hint
  annotates, the origin of the hint.
\<close>

definition get_hint_pep593_type :: "('p, 'c) hint \<Rightarrow> 'c" where
  "get_hint_pep593_type h = origin h"

text \<open>
  Modelled from the spec: \<open>get_hint_pep593_metadata\<close> is the ordered sequence of
  objects annotating the class of an ANNOTATED hint.
\<close>

definition get_hint_pep593_metadata :: "('p, 'c) hint \<Rightarrow> 'p metadatum list" where
  "get_hint_pep593_metadata h = metadata h"

text \<open>
  Modelled from the spec: a class used as a hint is a CLASS node on that class, with
  no metadata.
\<close>

definition class_hint :: "'c \<Rightarrow> ('p, 'c) hint" where
  "class_hint c = \<lparr>sign = HINT_SIGN_CLASS, origin = c, metadata = []\<rparr>"

text \<open>
  Modelled from the spec: \<open>permute\<close> derives a child context that replaces the hint
  and preserves everything else; the context it is called on is left as it is.
\<close>

definition permute :: "('p, 'c) CauseSleuth \<Rightarrow> ('p, 'c) hint \<Rightarrow> ('p, 'c) CauseSleuth" where
  "permute sleuth h = sleuth\<lparr>hint := h\<rparr>"

text \<open>
  Modelled from the spec: the CLASS diagnosis \<open>get_cause_or_none_type\<close>. If the pith
  fails the instance-of test against the origin of the hint, it returns a one-line
  cause citing the expected class, which is the hint of the context it is called on,
  and the pith; else \<open>None\<close>.
\<close>

definition get_cause_or_none_type ::
  "('p, 'c) collaborators \<Rightarrow> ('p, 'c) CauseSleuth \<Rightarrow> string option" where
  "get_cause_or_none_type env sleuth =
     (if isinstance env (pith sleuth) (origin (hint sleuth)) then None
      else Some (cause_not_instance env (pith sleuth) (hint sleuth)))"

section \<open>The sleuth for metahints\<close>

text \<open>
  The \<^verbatim>\<open>for hint_metadatum in get_hint_pep593_metadata(sleuth.hint)\<close> loop of
  \<open>get_cause_or_none_annotated\<close>, as a recursion over the metadata still to visit.
  A raise is \<open>Inl\<close>, a return is \<open>Inr\<close>.
\<close>

fun get_cause_or_none_metadata ::
  "('p, 'c) collaborators \<Rightarrow> ('p, 'c) CauseSleuth \<Rightarrow> 'p metadatum list \<Rightarrow> error + string option"
where
  "get_cause_or_none_metadata env sleuth [] = Inr None"
| "get_cause_or_none_metadata env sleuth (hint_metadatum # rest) =
     (if \<not> is_SubscriptedIs hint_metadatum then
        Inl (BeartypeCallHintPepRaiseException
          (exception_label sleuth @ '' PEP 593 type hint '' @ repr_hint env (hint sleuth) @
           '' argument '' @ repr_metadatum hint_metadatum @
           '' not not subscription of '' @ [CHR 0x22] @ ''beartype.vale.Is*'' @
           [CHR 0x22] @ '' class.''))
      else if \<not> is_valid hint_metadatum (pith sleuth) then
        Inr (Some
          (get_cause_object_representation env (pith sleuth) @
           '' violates data constraint '' @ repr_metadatum hint_metadatum @ ''.''))
      else get_cause_or_none_metadata env sleuth rest)"

text \<open>
  \<open>get_cause_or_none_annotated\<close>, as a function of the context it is called on: it
  returns the outcome, paired with that context. The first assertion of the source,
  that the argument is a \<open>CauseSleuth\<close>, holds by the type of the argument; the
  second one fails with \<open>AssertionError\<close> unless the sign is
  \<open>HINT_PEP593_SIGN_ANNOTATED\<close>.
\<close>

definition get_cause_or_none_annotated ::
  "('p, 'c) collaborators \<Rightarrow> ('p, 'c) CauseSleuth \<Rightarrow>
     (error + string option) \<times> ('p, 'c) CauseSleuth"
where
  "get_cause_or_none_annotated env sleuth =
     (if hint_sign sleuth \<noteq> HINT_PEP593_SIGN_ANNOTATED then (Inl AssertionError, sleuth)
      else
        let hint_annotated = get_hint_pep593_type (hint sleuth) in
        if \<not> isinstance env (pith sleuth) hint_annotated then
          (Inr (get_cause_or_none_type env (permute sleuth (class_hint hint_annotated))),
           sleuth)
        else
          (get_cause_or_none_metadata env sleuth (get_hint_pep593_metadata (hint sleuth)),
           sleuth))"

section \<open>The sleuth on contexts held in a store\<close>







section \<open>Callable origins\<close>

text \<open>
  A code object. \<^verbatim>\<open>getattr(func_codeobj, 'co_filename', None)\<close> is \<open>None\<close> for a
  code object that does not offer the attribute.
\<close>

record code_object =
  co_filename :: "string option"

text \<open>
  \<open>get_func_filename_or_none\<close>. The getter of the code object of a callable
  (\<open>get_func_codeobj_or_none\<close>) and the cache of the \<open>linecache\<close> module, a
  dictionary keyed by filename, are defined outside the module and are parameters.
  A code object is always truthy, so \<^verbatim>\<open>not func_codeobj\<close> tests for \<open>None\<close>;
  \<^verbatim>\<open>not func_filename\<close> holds of \<open>None\<close> and of the empty string, and the
  characters at index \<open>0\<close> and \<open>-1\<close> are only read of a non-empty string.
\<close>

definition get_func_filename_or_none ::
  "('f \<Rightarrow> code_object option) \<Rightarrow> (string \<rightharpoonup> 'e) \<Rightarrow> 'f \<Rightarrow> string option"
where
  "get_func_filename_or_none get_func_codeobj_or_none linecache_cache func =
     (case get_func_codeobj_or_none func of
        None \<Rightarrow> None
      | Some func_codeobj \<Rightarrow>
          (case co_filename func_codeobj of
             None \<Rightarrow> None
           | Some func_filename \<Rightarrow>
               if func_filename = [] \<or>
                  (hd func_filename = CHR ''<'' \<and>
                   last func_filename = CHR ''>'' \<and>
                   linecache_cache func_filename = None)
               then None
               else Some func_filename))"

definition is_func_file ::
  "('f \<Rightarrow> code_object option) \<Rightarrow> (string \<rightharpoonup> 'e) \<Rightarrow> 'f \<Rightarrow> bool"
where
  "is_func_file get_func_codeobj_or_none linecache_cache func =
     (get_func_filename_or_none get_func_codeobj_or_none linecache_cache func \<noteq> None)"

section \<open>The catalog of builtin types\<close>

text \<open>Python's \<open>str.startswith\<close> and \<open>str.endswith\<close>.\<close>

definition startswith :: "string \<Rightarrow> string \<Rightarrow> bool" where
  "startswith s p = (take (length p) s = p)"

definition endswith :: "string \<Rightarrow> string \<Rightarrow> bool" where
  "endswith s p = (length p \<le> length s \<and> drop (length s - length p) s = p)"

text \<open>
  The globals of the module that \<open>_init\<close> writes: \<open>TYPES_BUILTIN\<close>, declared as
  \<open>None\<close> and redefined by \<open>_init\<close> as a frozen set.
\<close>

record 'v datacls =
  TYPES_BUILTIN :: "'v set option"

text \<open>
  \<open>_init\<close>. The dictionary of the \<open>builtins\<close> module is the list of its items
  \<open>BUILTIN_NAME_TO_TYPE\<close>, and \<open>isinstance_type v\<close> is the test
  \<^verbatim>\<open>isinstance(v, type)\<close>; both come from the interpreter and are parameters.
\<close>

definition init ::
  "('v \<Rightarrow> bool) \<Rightarrow> (string \<times> 'v) list \<Rightarrow> 'v datacls \<Rightarrow> 'v datacls"
where
  "init isinstance_type BUILTIN_NAME_TO_TYPE globals =
     globals\<lparr>TYPES_BUILTIN := Some (set
       [builtin_value.
          (builtin_name, builtin_value) \<leftarrow> BUILTIN_NAME_TO_TYPE,
          isinstance_type builtin_value \<and>
          \<not> (startswith builtin_name ''__'' \<and> endswith builtin_name ''__'')])\<rparr>"

text \<open>
  The statements of the module, in the order in which importing the module executes
  them: the imports, the bindings of the other globals, the binding of
  \<open>TYPES_BUILTIN\<close> to \<open>None\<close>, the definition of \<open>_init\<close>, and the call of
  \<open>_init\<close> that is the last statement.
\<close>

datatype statement =
    Import string
  | Bind string
  | Bind_TYPES_BUILTIN_None
  | Def_init
  | Call_init

definition datacls_statements :: "statement list" where
  "datacls_statements =
     [Import ''beartype.typing'',
      Import ''beartype._cave._cavefast'',
      Import ''ast'',
      Import ''collections.abc'',
      Import ''pathlib'',
      Bind ''TYPES_CONTEXTMANAGER_FAKE'',
      Bind ''TYPES_SET_OR_TUPLE'',
      Bind ''TYPES_AST_SCOPE'',
      Bind ''TYPES_BEARTYPEABLE'',
      Bind_TYPES_BUILTIN_None,
      Bind ''TYPES_PEP484585_REF'',
      Def_init,
      Call_init]"

text \<open>
  What a statement does to the globals modelled: only the binding to \<open>None\<close> and
  the call of \<open>_init\<close> write \<open>TYPES_BUILTIN\<close>.
\<close>

fun exec_statement ::
  "('v \<Rightarrow> bool) \<Rightarrow> (string \<times> 'v) list \<Rightarrow> 'v datacls \<Rightarrow> statement \<Rightarrow> 'v datacls"
where
  "exec_statement isinstance_type BUILTIN_NAME_TO_TYPE globals (Import name) = globals"
| "exec_statement isinstance_type BUILTIN_NAME_TO_TYPE globals (Bind name) = globals"
| "exec_statement isinstance_type BUILTIN_NAME_TO_TYPE globals Bind_TYPES_BUILTIN_None =
     globals\<lparr>TYPES_BUILTIN := None\<rparr>"
| "exec_statement isinstance_type BUILTIN_NAME_TO_TYPE globals Def_init = globals"
| "exec_statement isinstance_type BUILTIN_NAME_TO_TYPE globals Call_init =
     init isinstance_type BUILTIN_NAME_TO_TYPE globals"

text \<open>The globals after each statement of a run, in order.\<close>

fun globals_after ::
  "('g \<Rightarrow> statement \<Rightarrow> 'g) \<Rightarrow> 'g \<Rightarrow> statement list \<Rightarrow> 'g list"
where
  "globals_after exec globals [] = []"
| "globals_after exec globals (st # rest) =
     exec globals st # globals_after exec (exec globals st) rest"

text \<open>
  Executing the module: before its first statement \<open>TYPES_BUILTIN\<close> is not bound,
  which is \<open>None\<close> here as well.
\<close>

definition datacls_module :: "('v \<Rightarrow> bool) \<Rightarrow> (string \<times> 'v) list \<Rightarrow> 'v datacls" where
  "datacls_module isinstance_type BUILTIN_NAME_TO_TYPE =
     foldl (exec_statement isinstance_type BUILTIN_NAME_TO_TYPE)
       \<lparr>TYPES_BUILTIN = None\<rparr> datacls_statements"

section \<open>Concrete scenarios\<close>

text \<open>
  A small host for concrete inputs: integers and strings as piths, their two classes, the
  instance-of test between them and their \<open>repr\<close>.
\<close>

datatype pyobj = PyInt int | PyStr string

datatype pycls = ClsInt | ClsStr

fun py_isinstance :: "pyobj \<Rightarrow> pycls \<Rightarrow> bool" where
  "py_isinstance (PyInt i) ClsInt = True"
| "py_isinstance (PyStr s) ClsStr = True"
| "py_isinstance p c = False"

fun decimal :: "nat \<Rightarrow> string" where
  "decimal n =
     (if n < 10 then [''0123456789'' ! n]
      else decimal (n div 10) @ [''0123456789'' ! (n mod 10)])"

declare decimal.simps [simp del]

fun py_repr :: "pyobj \<Rightarrow> string" where
  "py_repr (PyInt i) = (if i < 0 then ''-'' @ decimal (nat (- i)) else decimal (nat i))"
| "py_repr (PyStr s) = [CHR 0x27] @ s @ [CHR 0x27]"

fun py_class_name :: "pycls \<Rightarrow> string" where
  "py_class_name ClsInt = ''int''"
| "py_class_name ClsStr = ''str''"

definition py_repr_hint :: "(pyobj, pycls) hint \<Rightarrow> string" where
  "py_repr_hint h =
     (if sign h = HINT_PEP593_SIGN_ANNOTATED then
        ''typing.Annotated['' @ py_class_name (origin h) @
        concat (map (\<lambda>m. '', '' @ repr_metadatum m) (metadata h)) @ '']''
      else py_class_name (origin h))"

definition py_env :: "(pyobj, pycls) collaborators" where
  "py_env =
     \<lparr>isinstance = py_isinstance,
      get_cause_object_representation = py_repr,
      repr_hint = py_repr_hint,
      cause_not_instance = (\<lambda>p h. py_repr p @ '' not '' @ py_repr_hint h @ ''.'')\<rparr>"

text \<open>Three validators over integers, and a metahint on \<open>int\<close> carrying validators.\<close>

definition Is_under_100 :: "pyobj metadatum" where
  "Is_under_100 =
     SubscriptedIs (\<lambda>p. case p of PyInt i \<Rightarrow> i < 100 | PyStr s \<Rightarrow> False)
       ''Is[lambda x: x < 100]''"

definition Is_positive :: "pyobj metadatum" where
  "Is_positive =
     SubscriptedIs (\<lambda>p. case p of PyInt i \<Rightarrow> 0 < i | PyStr s \<Rightarrow> False)
       ''Is[lambda x: x > 0]''"

definition Is_even :: "pyobj metadatum" where
  "Is_even =
     SubscriptedIs (\<lambda>p. case p of PyInt i \<Rightarrow> i mod 2 = 0 | PyStr s \<Rightarrow> False)
       ''Is[lambda x: x % 2 == 0]''"

definition annotated_int ::
  "pyobj metadatum list \<Rightarrow> pyobj \<Rightarrow> (pyobj, pycls) CauseSleuth" where
  "annotated_int validators p =
     \<lparr>pith = p,
      hint = \<lparr>sign = HINT_PEP593_SIGN_ANNOTATED, origin = ClsInt, metadata = validators\<rparr>,
      exception_label = ''@beartyped f() parameter x''\<rparr>"

text \<open>
  Callables: a pure-Python callable carries a code object, a C-based one has none. The
  cache of \<open>linecache\<close> here holds the source of one callable made in memory.
\<close>

datatype pyfunc = PurePython code_object | CBased

fun py_get_func_codeobj_or_none :: "pyfunc \<Rightarrow> code_object option" where
  "py_get_func_codeobj_or_none (PurePython c) = Some c"
| "py_get_func_codeobj_or_none CBased = None"

definition py_linecache :: "string \<rightharpoonup> string list" where
  "py_linecache = [''<@beartype(f) at 0x7f>'' \<mapsto> [''def f(x): return x'']]"

text \<open>Values of the \<open>builtins\<close> module: types, functions and other objects.\<close>

datatype pyval = PyType string | PyFunction string | PyOther string

fun py_isinstance_type :: "pyval \<Rightarrow> bool" where
  "py_isinstance_type (PyType n) = True"
| "py_isinstance_type v = False"

definition py_builtins :: "(string \<times> pyval) list" where
  "py_builtins =
     [(''__name__'', PyOther ''builtins''),
      (''__loader__'', PyType ''BuiltinImporter''),
      (''len'', PyFunction ''len''),
      (''int'', PyType ''int''),
      (''OSError'', PyType ''OSError''),
      (''IOError'', PyType ''OSError''),
      (''__debug__'', PyOther ''True'')]"

section \<open>Properties of the loop over the metadata\<close>

lemmas context_defs =
  py_env_def Is_under_100_def Is_positive_def Is_even_def annotated_int_def
  hint_sign_def get_hint_pep593_type_def get_hint_pep593_metadata_def

lemmas scenario_defs =
  context_defs get_cause_or_none_annotated_def get_cause_or_none_type_def permute_def
  class_hint_def Let_def decimal.simps py_repr_hint_def

lemma repr_SubscriptedIs:
  "is_SubscriptedIs v \<Longrightarrow> repr_metadatum v = representation v"
  by (cases v) auto

lemma metadata_None_iff:
  "list_all is_SubscriptedIs ms \<Longrightarrow>
   (get_cause_or_none_metadata env s ms = Inr None) =
   list_all (\<lambda>m. is_valid m (pith s)) ms"
  by (induction ms) auto

lemma metadata_Some_iff:
  "list_all is_SubscriptedIs ms \<Longrightarrow>
   (\<exists>c. get_cause_or_none_metadata env s ms = Inr (Some c)) =
   (\<not> list_all (\<lambda>m. is_valid m (pith s)) ms)"
  by (induction ms) auto

lemma metadata_returns:
  "list_all is_SubscriptedIs ms \<Longrightarrow> \<exists>r. get_cause_or_none_metadata env s ms = Inr r"
  by (induction ms) auto

text \<open>
  The loop stops at the first object that is a rejecting validator, whatever follows it.
\<close>

lemma metadata_first_rejecting:
  "list_all (\<lambda>m. is_SubscriptedIs m \<and> is_valid m (pith s)) accepted \<Longrightarrow>
   is_SubscriptedIs v \<Longrightarrow> \<not> is_valid v (pith s) \<Longrightarrow>
   get_cause_or_none_metadata env s (accepted @ v # later) =
     Inr (Some (get_cause_object_representation env (pith s) @
                '' violates data constraint '' @ representation v @ ''.''))"
  by (induction accepted) (auto simp: repr_SubscriptedIs)

text \<open>
  It raises at the first object that is no validator, if every validator before it
  accepts the pith.
\<close>

lemma metadata_first_malformed:
  "list_all (\<lambda>m. is_SubscriptedIs m \<and> is_valid m (pith s)) accepted \<Longrightarrow>
   \<not> is_SubscriptedIs m \<Longrightarrow>
   get_cause_or_none_metadata env s (accepted @ m # later) =
     Inl (BeartypeCallHintPepRaiseException
          (exception_label s @ '' PEP 593 type hint '' @ repr_hint env (hint s) @
           '' argument '' @ repr_metadatum m @
           '' not not subscription of '' @ [CHR 0x22] @ ''beartype.vale.Is*'' @
           [CHR 0x22] @ '' class.''))"
  by (induction accepted) auto

lemma metadata_malformed_not_None:
  "\<not> list_all is_SubscriptedIs ms \<Longrightarrow> get_cause_or_none_metadata env s ms \<noteq> Inr None"
  by (induction ms) auto

lemma find_first_split:
  "find P xs = Some v \<Longrightarrow>
   xs = takeWhile (\<lambda>x. \<not> P x) xs @ v # tl (dropWhile (\<lambda>x. \<not> P x) xs) \<and> P v"
  by (induction xs) (auto split: if_splits)

text \<open>The two branches of \<open>get_cause_or_none_annotated\<close>, and the context it returns.\<close>

lemma annotated_instance:
  "hint_sign s = HINT_PEP593_SIGN_ANNOTATED \<Longrightarrow>
   isinstance env (pith s) (origin (hint s)) \<Longrightarrow>
   fst (get_cause_or_none_annotated env s) =
     get_cause_or_none_metadata env s (metadata (hint s))"
  by (simp add: get_cause_or_none_annotated_def Let_def get_hint_pep593_type_def
      get_hint_pep593_metadata_def)

lemma annotated_not_instance:
  "hint_sign s = HINT_PEP593_SIGN_ANNOTATED \<Longrightarrow>
   \<not> isinstance env (pith s) (origin (hint s)) \<Longrightarrow>
   fst (get_cause_or_none_annotated env s) =
     Inr (get_cause_or_none_type env (permute s (class_hint (origin (hint s)))))"
  by (simp add: get_cause_or_none_annotated_def Let_def get_hint_pep593_type_def)

section \<open>The sleuth agrees with the acceptance rule for metahints\<close>

text \<open>
  C1. For a context whose hint is ANNOTATED and whose metadata are all
  \<open>SubscriptedIs\<close> validators, \<open>get_cause_or_none_annotated\<close> returns \<open>None\<close> if and
  only if the pith is an instance of the annotated class and every validator accepts
  the pith, and it returns a cause string exactly when that conjunction fails.
\<close>

theorem annotated_none_iff_accepted:
  assumes "hint_sign s = HINT_PEP593_SIGN_ANNOTATED"
    and "list_all is_SubscriptedIs (get_hint_pep593_metadata (hint s))"
  shows "(fst (get_cause_or_none_annotated env s) = Inr None \<longleftrightarrow>
            isinstance env (pith s) (get_hint_pep593_type (hint s)) \<and>
            list_all (\<lambda>v. is_valid v (pith s)) (get_hint_pep593_metadata (hint s))) \<and>
         ((\<exists>cause. fst (get_cause_or_none_annotated env s) = Inr (Some cause)) \<longleftrightarrow>
            \<not> (isinstance env (pith s) (get_hint_pep593_type (hint s)) \<and>
               list_all (\<lambda>v. is_valid v (pith s)) (get_hint_pep593_metadata (hint s))))"
proof (cases "isinstance env (pith s) (origin (hint s))")
  case True
  with assms show ?thesis
    by (simp add: annotated_instance metadata_None_iff metadata_Some_iff
        get_hint_pep593_type_def get_hint_pep593_metadata_def)
next
  case False
  with assms show ?thesis
    by (simp add: annotated_not_instance get_cause_or_none_type_def permute_def class_hint_def
        get_hint_pep593_type_def get_hint_pep593_metadata_def)
qed

text \<open>
  The scenario of an \<open>int\<close> constrained to be positive: \<open>5\<close> has no cause, \<open>-5\<close>
  has one.
\<close>

theorem annotated_none_iff_accepted_witness:
  "fst (get_cause_or_none_annotated py_env (annotated_int [Is_positive] (PyInt 5))) =
     Inr None \<and>
   (\<exists>cause.
      fst (get_cause_or_none_annotated py_env (annotated_int [Is_positive] (PyInt (- 5)))) =
      Inr (Some cause))"
proof -
  have sign: "hint_sign (annotated_int [Is_positive] p) = HINT_PEP593_SIGN_ANNOTATED" for p
    by (simp add: context_defs)
  have subs: "list_all is_SubscriptedIs
      (get_hint_pep593_metadata (hint (annotated_int [Is_positive] p)))" for p
    by (simp add: context_defs)
  show ?thesis
    using annotated_none_iff_accepted [OF sign subs, of py_env "PyInt 5"]
      annotated_none_iff_accepted [OF sign subs, of py_env "PyInt (- 5)"]
    by (simp add: context_defs)
qed

text \<open>
  C2. For an ANNOTATED hint and a pith that is not an instance of the annotated class,
  \<open>get_cause_or_none_annotated\<close> returns exactly what the CLASS diagnosis returns on
  the context permuted to the stripped class: the cause of the class mismatch, which
  cites the class as the hint, not the metahint. The metadata play no part: whatever
  objects replace them, validators or not, the outcome is the same.
\<close>

theorem annotated_not_instance_defers_to_class:
  assumes "hint_sign s = HINT_PEP593_SIGN_ANNOTATED"
    and "\<not> isinstance env (pith s) (get_hint_pep593_type (hint s))"
  shows "fst (get_cause_or_none_annotated env s) =
           Inr (get_cause_or_none_type env
                  (permute s (class_hint (get_hint_pep593_type (hint s))))) \<and>
         fst (get_cause_or_none_annotated env s) =
           Inr (Some (cause_not_instance env (pith s)
                        (class_hint (get_hint_pep593_type (hint s))))) \<and>
         (\<forall>others.
            fst (get_cause_or_none_annotated env
                  (s\<lparr>hint := (hint s)\<lparr>metadata := others\<rparr>\<rparr>)) =
            fst (get_cause_or_none_annotated env s))"
  using assms
  by (simp add: annotated_not_instance get_hint_pep593_type_def hint_sign_def permute_def
      get_cause_or_none_type_def class_hint_def)

text \<open>
  A string checked against the constrained \<open>int\<close>: the cause cites \<open>int\<close>, where
  the CLASS diagnosis of the context as it is, not permuted, would cite the metahint;
  and the cause is the same when the validator is replaced by an object that is no
  validator.
\<close>

theorem annotated_not_instance_defers_to_class_witness:
  "fst (get_cause_or_none_annotated py_env (annotated_int [Is_positive] (PyStr ''five''))) =
     Inr (Some (CHR 0x27 # ''five'' @ CHR 0x27 # '' not int.'')) \<and>
   get_cause_or_none_type py_env (annotated_int [Is_positive] (PyStr ''five'')) =
     Some (CHR 0x27 # ''five'' @ CHR 0x27 #
           '' not typing.Annotated[int, Is[lambda x: x > 0]].'') \<and>
   fst (get_cause_or_none_annotated py_env
         (annotated_int [NotSubscriptedIs ''42''] (PyStr ''five''))) =
   fst (get_cause_or_none_annotated py_env (annotated_int [Is_positive] (PyStr ''five'')))"
proof -
  let ?s = "annotated_int [Is_positive] (PyStr ''five'')"
  have sign: "hint_sign ?s = HINT_PEP593_SIGN_ANNOTATED"
    by (simp add: context_defs)
  have inst: "\<not> isinstance py_env (pith ?s) (get_hint_pep593_type (hint ?s))"
    by (simp add: context_defs)
  have other: "?s\<lparr>hint := (hint ?s)\<lparr>metadata := [NotSubscriptedIs ''42'']\<rparr>\<rparr> =
      annotated_int [NotSubscriptedIs ''42''] (PyStr ''five'')"
    by (simp add: annotated_int_def)
  have unpermuted: "get_cause_or_none_type py_env ?s =
     Some (CHR 0x27 # ''five'' @ CHR 0x27 #
           '' not typing.Annotated[int, Is[lambda x: x > 0]].'')"
    by (simp add: context_defs get_cause_or_none_type_def py_repr_hint_def)
  from annotated_not_instance_defers_to_class [OF sign inst] have
    "fst (get_cause_or_none_annotated py_env ?s) =
       Inr (get_cause_or_none_type py_env
             (permute ?s (class_hint (get_hint_pep593_type (hint ?s)))))"
    and "fst (get_cause_or_none_annotated py_env
           (?s\<lparr>hint := (hint ?s)\<lparr>metadata := [NotSubscriptedIs ''42'']\<rparr>\<rparr>)) =
       fst (get_cause_or_none_annotated py_env ?s)"
    by blast+
  then show ?thesis
    unfolding other unpermuted
    by (simp add: context_defs get_cause_or_none_type_def permute_def class_hint_def
        py_repr_hint_def)
qed

text \<open>
  C3. For an ANNOTATED hint whose metadata are all \<open>SubscriptedIs\<close> validators and a
  pith that is an instance of the annotated class, if some validator rejects the pith,
  then the cause returned cites the representation of the first validator, in
  declaration order, that rejects it (\<open>find\<close> returns the first element of a list that
  satisfies a predicate). Nothing declared after that validator determines the result:
  the outcome is the same whatever follows it.
\<close>

theorem annotated_first_rejecting_validator:
  assumes "hint_sign s = HINT_PEP593_SIGN_ANNOTATED"
    and "list_all is_SubscriptedIs (get_hint_pep593_metadata (hint s))"
    and "isinstance env (pith s) (get_hint_pep593_type (hint s))"
    and "find (\<lambda>v. \<not> is_valid v (pith s)) (get_hint_pep593_metadata (hint s)) = Some first"
  shows "fst (get_cause_or_none_annotated env s) =
           Inr (Some (get_cause_object_representation env (pith s) @
                      '' violates data constraint '' @ representation first @ ''.'')) \<and>
         (\<forall>later.
            fst (get_cause_or_none_annotated env
                  (s\<lparr>hint := (hint s)\<lparr>metadata :=
                     takeWhile (\<lambda>v. is_valid v (pith s)) (get_hint_pep593_metadata (hint s)) @
                     first # later\<rparr>\<rparr>)) =
            fst (get_cause_or_none_annotated env s))"
proof -
  let ?ms = "metadata (hint s)"
  let ?acc = "takeWhile (\<lambda>v. is_valid v (pith s)) ?ms"
  let ?cause = "Inr (Some (get_cause_object_representation env (pith s) @
                      '' violates data constraint '' @ representation first @ ''.''))"
  from assms(4) have split: "?ms = ?acc @ first # tl (dropWhile (\<lambda>v. is_valid v (pith s)) ?ms)"
    and rej: "\<not> is_valid first (pith s)"
    using find_first_split [of "\<lambda>v. \<not> is_valid v (pith s)" ?ms first]
    by (simp_all add: get_hint_pep593_metadata_def)
  from split have "first \<in> set ?ms"
    by (metis in_set_conv_decomp)
  with assms(2) have sub: "is_SubscriptedIs first"
    by (simp add: list_all_iff get_hint_pep593_metadata_def)
  have acc: "list_all (\<lambda>m. is_SubscriptedIs m \<and> is_valid m (pith s)) ?acc"
    using assms(2)
    by (auto simp: list_all_iff get_hint_pep593_metadata_def dest: set_takeWhileD)
  have loop: "get_cause_or_none_metadata env s' (?acc @ first # later) = ?cause"
    if "pith s' = pith s"
    for s' :: "('a, 'b) CauseSleuth" and later
    using metadata_first_rejecting [of s' ?acc first env later] acc sub rej that by simp
  have one: "fst (get_cause_or_none_annotated env s) = ?cause"
    using assms(1,3) loop [of s] split
    by (simp add: annotated_instance get_hint_pep593_type_def) metis
  have two: "fst (get_cause_or_none_annotated env
        (s\<lparr>hint := (hint s)\<lparr>metadata := ?acc @ first # later\<rparr>\<rparr>)) = ?cause"
    for later
    using assms(1,3) loop [of "s\<lparr>hint := (hint s)\<lparr>metadata := ?acc @ first # later\<rparr>\<rparr>" later]
    by (simp add: annotated_instance get_hint_pep593_type_def hint_sign_def)
  from one two show ?thesis
    by (simp add: get_hint_pep593_metadata_def)
qed

text \<open>
  Three validators on \<open>-5\<close>: under 100 accepts, positive and even both reject. The
  cause cites positive, also when the third entry is replaced by any other object.
\<close>

theorem annotated_first_rejecting_validator_witness:
  "fst (get_cause_or_none_annotated py_env
         (annotated_int [Is_under_100, Is_positive, Is_even] (PyInt (- 5)))) =
     Inr (Some ''-5 violates data constraint Is[lambda x: x > 0].'') \<and>
   fst (get_cause_or_none_annotated py_env
         (annotated_int [Is_under_100, Is_positive, NotSubscriptedIs ''42''] (PyInt (- 5)))) =
   fst (get_cause_or_none_annotated py_env
         (annotated_int [Is_under_100, Is_positive, Is_even] (PyInt (- 5))))"
proof -
  let ?s = "annotated_int [Is_under_100, Is_positive, Is_even] (PyInt (- 5))"
  have sign: "hint_sign ?s = HINT_PEP593_SIGN_ANNOTATED"
    by (simp add: context_defs)
  have subs: "list_all is_SubscriptedIs (get_hint_pep593_metadata (hint ?s))"
    by (simp add: context_defs)
  have inst: "isinstance py_env (pith ?s) (get_hint_pep593_type (hint ?s))"
    by (simp add: context_defs)
  have first: "find (\<lambda>v. \<not> is_valid v (pith ?s)) (get_hint_pep593_metadata (hint ?s)) =
      Some Is_positive"
    by (simp add: context_defs)
  have other: "?s\<lparr>hint := (hint ?s)\<lparr>metadata :=
        takeWhile (\<lambda>v. is_valid v (pith ?s)) (get_hint_pep593_metadata (hint ?s)) @
        Is_positive # [NotSubscriptedIs ''42'']\<rparr>\<rparr> =
      annotated_int [Is_under_100, Is_positive, NotSubscriptedIs ''42''] (PyInt (- 5))"
    by (simp add: context_defs)
  from annotated_first_rejecting_validator [OF sign subs inst first] have
    "fst (get_cause_or_none_annotated py_env ?s) =
       Inr (Some (get_cause_object_representation py_env (pith ?s) @
                  '' violates data constraint '' @ representation Is_positive @ ''.''))"
    and "fst (get_cause_or_none_annotated py_env (?s\<lparr>hint := (hint ?s)\<lparr>metadata :=
        takeWhile (\<lambda>v. is_valid v (pith ?s)) (get_hint_pep593_metadata (hint ?s)) @
        Is_positive # [NotSubscriptedIs ''42'']\<rparr>\<rparr>)) =
       fst (get_cause_or_none_annotated py_env ?s)"
    by blast+
  then show ?thesis
    unfolding other
    by (simp add: context_defs decimal.simps)
qed

section \<open>Metadata that are no validators\<close>

text \<open>
  A metahint whose second annotation is no validator, checked against \<open>-5\<close>: the
  validator declared first rejects the pith, the loop returns its cause, and the
  annotation after it is never reached. So a malformed annotation does not always raise.
\<close>

theorem annotated_malformed_after_rejection_returns_cause:
  "hint_sign (annotated_int [Is_positive, NotSubscriptedIs ''42''] (PyInt (- 5))) =
     HINT_PEP593_SIGN_ANNOTATED \<and>
   \<not> list_all is_SubscriptedIs
       (get_hint_pep593_metadata
         (hint (annotated_int [Is_positive, NotSubscriptedIs ''42''] (PyInt (- 5))))) \<and>
   isinstance py_env (PyInt (- 5))
     (get_hint_pep593_type
       (hint (annotated_int [Is_positive, NotSubscriptedIs ''42''] (PyInt (- 5))))) \<and>
   fst (get_cause_or_none_annotated py_env
         (annotated_int [Is_positive, NotSubscriptedIs ''42''] (PyInt (- 5)))) =
     Inr (Some ''-5 violates data constraint Is[lambda x: x > 0].'')"
  by (simp add: scenario_defs)

text \<open>
  C4, amended. For an ANNOTATED hint whose metadata contain an object that is not a
  \<open>SubscriptedIs\<close>, and a pith that is an instance of the annotated class,
  \<open>get_cause_or_none_annotated\<close> never returns \<open>None\<close>, and it raises
  \<open>_BeartypeCallHintPepRaiseException\<close> whenever every validator declared before the
  first such object accepts the pith.
\<close>

theorem annotated_malformed_metadata_raises:
  assumes "hint_sign s = HINT_PEP593_SIGN_ANNOTATED"
    and "isinstance env (pith s) (get_hint_pep593_type (hint s))"
    and "get_hint_pep593_metadata (hint s) = before @ malformed # later"
    and "list_all is_SubscriptedIs before"
    and "\<not> is_SubscriptedIs malformed"
  shows "fst (get_cause_or_none_annotated env s) \<noteq> Inr None \<and>
         (list_all (\<lambda>v. is_valid v (pith s)) before \<longrightarrow>
          fst (get_cause_or_none_annotated env s) =
            Inl (BeartypeCallHintPepRaiseException
              (exception_label s @ '' PEP 593 type hint '' @ repr_hint env (hint s) @
               '' argument '' @ repr_metadatum malformed @
               '' not not subscription of '' @ [CHR 0x22] @ ''beartype.vale.Is*'' @
               [CHR 0x22] @ '' class.'')))"
proof -
  have run: "fst (get_cause_or_none_annotated env s) =
      get_cause_or_none_metadata env s (before @ malformed # later)"
    using assms(1,2,3)
    by (simp add: annotated_instance get_hint_pep593_type_def get_hint_pep593_metadata_def)
  have "\<not> list_all is_SubscriptedIs (before @ malformed # later)"
    using assms(5) by simp
  then have "get_cause_or_none_metadata env s (before @ malformed # later) \<noteq> Inr None"
    by (rule metadata_malformed_not_None)
  moreover have "get_cause_or_none_metadata env s (before @ malformed # later) =
            Inl (BeartypeCallHintPepRaiseException
              (exception_label s @ '' PEP 593 type hint '' @ repr_hint env (hint s) @
               '' argument '' @ repr_metadatum malformed @
               '' not not subscription of '' @ [CHR 0x22] @ ''beartype.vale.Is*'' @
               [CHR 0x22] @ '' class.''))"
    if "list_all (\<lambda>v. is_valid v (pith s)) before"
    using metadata_first_malformed [of s before malformed env later] assms(4,5) that
    by (simp add: list_all_iff)
  ultimately show ?thesis
    using run by simp
qed

text \<open>The same metahint checked against \<open>5\<close>: the validator accepts, the call raises.\<close>

theorem annotated_malformed_metadata_raises_witness:
  "fst (get_cause_or_none_annotated py_env
         (annotated_int [Is_positive, NotSubscriptedIs ''42''] (PyInt 5))) =
     Inl (BeartypeCallHintPepRaiseException
       (''@beartyped f() parameter x PEP 593 type hint '' @
        ''typing.Annotated[int, Is[lambda x: x > 0], 42] argument 42 '' @
        ''not not subscription of '' @ [CHR 0x22] @ ''beartype.vale.Is*'' @ [CHR 0x22] @
        '' class.''))"
proof -
  let ?s = "annotated_int [Is_positive, NotSubscriptedIs ''42''] (PyInt 5)"
  have sign: "hint_sign ?s = HINT_PEP593_SIGN_ANNOTATED"
    by (simp add: context_defs)
  have inst: "isinstance py_env (pith ?s) (get_hint_pep593_type (hint ?s))"
    by (simp add: context_defs)
  have split: "get_hint_pep593_metadata (hint ?s) = [Is_positive] @ NotSubscriptedIs ''42'' # []"
    by (simp add: context_defs)
  have before: "list_all is_SubscriptedIs [Is_positive]"
    by (simp add: context_defs)
  have malformed: "\<not> is_SubscriptedIs (NotSubscriptedIs ''42'' :: pyobj metadatum)"
    by simp
  have accept: "list_all (\<lambda>v. is_valid v (pith ?s)) [Is_positive]"
    by (simp add: context_defs)
  from annotated_malformed_metadata_raises [OF sign inst split before malformed] accept
  show ?thesis
    by (simp add: context_defs py_repr_hint_def)
qed

section \<open>Rejection is a return value\<close>

text \<open>
  C5. For an ANNOTATED context whose metadata are all \<open>SubscriptedIs\<close> validators
  (their predicates are total functions), \<open>get_cause_or_none_annotated\<close> returns
  normally, with a cause string or \<open>None\<close>: no branch that raises is reached.
\<close>

theorem annotated_validators_return_normally:
  assumes "hint_sign s = HINT_PEP593_SIGN_ANNOTATED"
    and "list_all is_SubscriptedIs (get_hint_pep593_metadata (hint s))"
  shows "\<exists>result. fst (get_cause_or_none_annotated env s) = Inr result"
proof (cases "isinstance env (pith s) (origin (hint s))")
  case True
  with assms show ?thesis
    using metadata_returns [of "metadata (hint s)" env s]
    by (simp add: annotated_instance get_hint_pep593_metadata_def)
next
  case False
  with assms show ?thesis
    by (simp add: annotated_not_instance)
qed

theorem annotated_validators_return_normally_witness:
  "(\<exists>result. fst (get_cause_or_none_annotated py_env
       (annotated_int [Is_under_100, Is_positive] (PyInt (- 5)))) = Inr result) \<and>
   (\<exists>result. fst (get_cause_or_none_annotated py_env
       (annotated_int [Is_under_100, Is_positive] (PyStr ''five''))) = Inr result)"
proof -
  have sign: "hint_sign (annotated_int [Is_under_100, Is_positive] p) =
      HINT_PEP593_SIGN_ANNOTATED" for p
    by (simp add: context_defs)
  have subs: "list_all is_SubscriptedIs
      (get_hint_pep593_metadata (hint (annotated_int [Is_under_100, Is_positive] p)))" for p
    by (simp add: context_defs)
  show ?thesis
    using annotated_validators_return_normally [OF sign subs, of py_env "PyInt (- 5)"]
      annotated_validators_return_normally [OF sign subs, of py_env "PyStr ''five''"]
    by simp
qed

section \<open>The sleuth writes to no object\<close>












section \<open>The origin of a callable\<close>

lemma startswith_char: "s \<noteq> [] \<Longrightarrow> startswith s [c] = (hd s = c)"
  by (cases s) (simp_all add: startswith_def)

lemma endswith_char: "s \<noteq> [] \<Longrightarrow> endswith s [c] = (last s = c)"
proof -
  assume "s \<noteq> []"
  then obtain ys y where s: "s = ys @ [y]"
    by (metis append_butlast_last_id)
  show ?thesis
    by (simp add: s endswith_def)
qed

text \<open>
  C9. For every callable, \<open>is_func_file\<close> returns \<open>True\<close> if and only if
  \<open>get_func_filename_or_none\<close> returns a filename on that callable; in particular it
  returns \<open>False\<close> for every callable that has no code object.
\<close>

theorem is_func_file_iff_filename:
  "(is_func_file get_func_codeobj_or_none linecache_cache func \<longleftrightarrow>
      get_func_filename_or_none get_func_codeobj_or_none linecache_cache func \<noteq> None) \<and>
   (get_func_codeobj_or_none func = None \<longrightarrow>
      \<not> is_func_file get_func_codeobj_or_none linecache_cache func)"
  by (simp add: is_func_file_def get_func_filename_or_none_def)

text \<open>
  A callable of a module on disk, a callable made by \<open>exec\<close> whose source is not
  cached, and a C-based callable.
\<close>

theorem is_func_file_iff_filename_witness:
  "is_func_file py_get_func_codeobj_or_none py_linecache
     (PurePython \<lparr>co_filename = Some ''/usr/lib/python3/json/decoder.py''\<rparr>) \<and>
   \<not> is_func_file py_get_func_codeobj_or_none py_linecache
     (PurePython \<lparr>co_filename = Some ''<string>''\<rparr>) \<and>
   \<not> is_func_file py_get_func_codeobj_or_none py_linecache CBased"
  using is_func_file_iff_filename [of py_get_func_codeobj_or_none py_linecache
        "PurePython \<lparr>co_filename = Some ''/usr/lib/python3/json/decoder.py''\<rparr>"]
    is_func_file_iff_filename [of py_get_func_codeobj_or_none py_linecache
        "PurePython \<lparr>co_filename = Some ''<string>''\<rparr>"]
    is_func_file_iff_filename [of py_get_func_codeobj_or_none py_linecache CBased]
  by (simp add: get_func_filename_or_none_def py_linecache_def)

text \<open>
  C10. For a pure-Python callable whose code object has a non-empty \<open>co_filename\<close>:
  if the filename starts with \<open><\<close> and ends with \<open>>\<close>,
  \<open>get_func_filename_or_none\<close> returns it unchanged when it is a key of the cache of
  \<open>linecache\<close> and \<open>None\<close> otherwise; if it is not bracketed this way, the filename
  is returned unchanged, whatever the cache holds.
\<close>

theorem func_filename_placeholder_or_path:
  assumes "get_func_codeobj_or_none func = Some func_codeobj"
    and "co_filename func_codeobj = Some func_filename"
    and "func_filename \<noteq> []"
  shows "(startswith func_filename ''<'' \<and> endswith func_filename ''>'' \<longrightarrow>
            get_func_filename_or_none get_func_codeobj_or_none linecache_cache func =
              (if func_filename \<in> dom linecache_cache then Some func_filename else None)) \<and>
         (\<not> (startswith func_filename ''<'' \<and> endswith func_filename ''>'') \<longrightarrow>
            get_func_filename_or_none get_func_codeobj_or_none linecache_cache func =
              Some func_filename)"
  using assms
  by (auto simp: get_func_filename_or_none_def startswith_char endswith_char)

text \<open>
  A placeholder filename that is cached, one that is not, and a path of a file that
  need not exist.
\<close>

theorem func_filename_placeholder_or_path_witness:
  "get_func_filename_or_none py_get_func_codeobj_or_none py_linecache
     (PurePython \<lparr>co_filename = Some ''<@beartype(f) at 0x7f>''\<rparr>) =
     Some ''<@beartype(f) at 0x7f>'' \<and>
   get_func_filename_or_none py_get_func_codeobj_or_none py_linecache
     (PurePython \<lparr>co_filename = Some ''<string>''\<rparr>) = None \<and>
   get_func_filename_or_none py_get_func_codeobj_or_none py_linecache
     (PurePython \<lparr>co_filename = Some ''/nonexistent/f.py''\<rparr>) = Some ''/nonexistent/f.py''"
proof -
  have origin: "get_func_filename_or_none py_get_func_codeobj_or_none py_linecache
       (PurePython \<lparr>co_filename = Some name\<rparr>) =
     (if startswith name ''<'' \<and> endswith name ''>''
      then if name \<in> dom py_linecache then Some name else None
      else Some name)" if "name \<noteq> []" for name
    using func_filename_placeholder_or_path
      [of py_get_func_codeobj_or_none "PurePython \<lparr>co_filename = Some name\<rparr>"
        "\<lparr>co_filename = Some name\<rparr>" name py_linecache] that
    by simp
  have "get_func_filename_or_none py_get_func_codeobj_or_none py_linecache
       (PurePython \<lparr>co_filename = Some ''<@beartype(f) at 0x7f>''\<rparr>) =
     Some ''<@beartype(f) at 0x7f>''"
    by (subst origin) (simp_all add: startswith_def endswith_def py_linecache_def)
  moreover have "get_func_filename_or_none py_get_func_codeobj_or_none py_linecache
     (PurePython \<lparr>co_filename = Some ''<string>''\<rparr>) = None"
    by (subst origin) (simp_all add: startswith_def endswith_def py_linecache_def)
  moreover have "get_func_filename_or_none py_get_func_codeobj_or_none py_linecache
     (PurePython \<lparr>co_filename = Some ''/nonexistent/f.py''\<rparr>) = Some ''/nonexistent/f.py''"
    by (subst origin) (simp_all add: startswith_def endswith_def)
  ultimately show ?thesis
    by simp
qed

section \<open>The catalog of builtin types is built once\<close>

lemma init_TYPES_BUILTIN:
  "TYPES_BUILTIN (init t items g) =
     Some {v. \<exists>n. (n, v) \<in> set items \<and> t v \<and>
                  \<not> (startswith n ''__'' \<and> endswith n ''__'')}"
  by (auto simp: init_def image_iff)

lemma catalog_list:
  "{builtin_value. \<exists>builtin_name.
      (builtin_name, builtin_value) \<in> set items \<and> t builtin_value \<and>
      \<not> (startswith builtin_name ''__'' \<and> endswith builtin_name ''__'')} =
   set [v. (n, v) \<leftarrow> items, t v \<and> \<not> (startswith n ''__'' \<and> endswith n ''__'')]"
  by (auto simp: image_iff)

text \<open>
  C7. \<open>TYPES_BUILTIN\<close> is constructed exactly once, by the one call of \<open>_init\<close>
  in the execution of the module. The history of the global over the thirteen
  statements of the module is: no set after each of the first twelve, and after the
  thirteenth, the call of \<open>_init\<close>, the frozen set of exactly the values of those
  attributes of the \<open>builtins\<close> module that are types and whose names do not both
  start and end with two underscores. The call occurs once and is the last statement, so
  no statement runs after it; the set itself is a value.
\<close>

theorem types_builtin_built_once:
  "map TYPES_BUILTIN
     (globals_after (exec_statement isinstance_type BUILTIN_NAME_TO_TYPE)
        \<lparr>TYPES_BUILTIN = None\<rparr> datacls_statements) =
     replicate 12 None @
     [Some {builtin_value. \<exists>builtin_name.
             (builtin_name, builtin_value) \<in> set BUILTIN_NAME_TO_TYPE \<and>
             isinstance_type builtin_value \<and>
             \<not> (startswith builtin_name ''__'' \<and> endswith builtin_name ''__'')}] \<and>
   TYPES_BUILTIN (datacls_module isinstance_type BUILTIN_NAME_TO_TYPE) =
     Some {builtin_value. \<exists>builtin_name.
             (builtin_name, builtin_value) \<in> set BUILTIN_NAME_TO_TYPE \<and>
             isinstance_type builtin_value \<and>
             \<not> (startswith builtin_name ''__'' \<and> endswith builtin_name ''__'')} \<and>
   length (filter (\<lambda>st. st = Call_init) datacls_statements) = 1 \<and>
   last datacls_statements = Call_init"
  by (simp add: datacls_statements_def datacls_module_def init_TYPES_BUILTIN
      eval_nat_numeral)

text \<open>
  On a small \<open>builtins\<close> dictionary the catalog holds \<open>int\<close> and \<open>OSError\<close> (bound
  to two names), and neither the function \<open>len\<close> nor the type bound to
  \<open>__loader__\<close>.
\<close>

theorem types_builtin_built_once_witness:
  "map TYPES_BUILTIN
     (globals_after (exec_statement py_isinstance_type py_builtins)
        \<lparr>TYPES_BUILTIN = None\<rparr> datacls_statements) =
     replicate 12 None @ [Some {PyType ''int'', PyType ''OSError''}] \<and>
   TYPES_BUILTIN (datacls_module py_isinstance_type py_builtins) =
     Some {PyType ''int'', PyType ''OSError''}"
proof -
  have catalog: "{builtin_value. \<exists>builtin_name.
             (builtin_name, builtin_value) \<in> set py_builtins \<and>
             py_isinstance_type builtin_value \<and>
             \<not> (startswith builtin_name ''__'' \<and> endswith builtin_name ''__'')} =
        {PyType ''int'', PyType ''OSError''}"
    unfolding catalog_list
    by (simp add: py_builtins_def startswith_def endswith_def)
  show ?thesis
    using types_builtin_built_once [of py_isinstance_type py_builtins]
    by (simp only: catalog)
qed

end
